theory Spec2Isabelle
  imports Main "HOL-Library.Word"
begin

section \<open>Errors\<close>

text \<open>
  A Go \<open>error\<close> value. \<open>ErrUserNotFound\<close> is the package variable
  \<open>var ErrUserNotFound = errors.New("user not found")\<close>; every other error value is
  \<open>ErrOther\<close> with its message, and \<open>ErrWrap msg e\<close> is an error that wraps \<open>e\<close>
  (as \<open>fmt.Errorf("...%w", e)\<close> builds). An \<open>ErrOther\<close> carrying the text
  "user not found" is a different value from \<open>ErrUserNotFound\<close>, as in Go.
\<close>

datatype goerror =
    ErrUserNotFound
  | ErrOther string
  | ErrWrap string goerror

text \<open>\<open>err.Error()\<close>\<close>

fun Error :: "goerror \<Rightarrow> string" where
  "Error ErrUserNotFound = ''user not found''"
| "Error (ErrOther msg) = msg"
| "Error (ErrWrap msg e) = msg"

text \<open>\<open>errors.Is(err, ErrUserNotFound)\<close>: the target or something on the unwrap chain.\<close>

fun Is_ErrUserNotFound :: "goerror \<Rightarrow> bool" where
  "Is_ErrUserNotFound ErrUserNotFound = True"
| "Is_ErrUserNotFound (ErrOther msg) = False"
| "Is_ErrUserNotFound (ErrWrap msg e) = Is_ErrUserNotFound e"

text \<open>\<open>vel.Error\<close>, the handler's error result.\<close>

record vel_Error =
  Code :: string
  Message :: string

section \<open>Webhook data model\<close>

text \<open>
  The structs of the webhook file. Go \<open>int\<close> fields are identifiers that are only
  copied and compared, never computed with, so they are \<open>int\<close>. A nil slice and an
  empty slice are both the empty list.
\<close>

record Sender =
  Login :: string

record InstallationAccount =
  ID :: int
  Type :: string
  Login :: string

record Installation =
  ID :: int
  Account :: InstallationAccount

record Repository =
  ID :: int
  CloneUrl :: string
  FullName :: string
  Private :: bool

record InstalledRepository =
  ID :: int
  FullName :: string
  Private :: bool
  Branch :: string

record GithubWebhookRequest =
  After :: string
  Installation :: Installation
  Sender :: Sender
  Action :: string
  Repositories :: "InstalledRepository list"
  RepositoriesAdded :: "InstalledRepository list"
  RepositoriesRemoved :: "InstalledRepository list"
  Ref :: string
  Repository :: Repository

text \<open>\<open>func (g GithubWebhookRequest) ReposToProcess() []InstalledRepository\<close>\<close>

definition ReposToProcess :: "GithubWebhookRequest \<Rightarrow> InstalledRepository list" where
  "ReposToProcess g =
     (if Action g = ''created'' then Repositories g
      else if Action g = ''added'' then RepositoriesAdded g
      else if Action g = '''' then
        (if Ref g \<noteq> ''refs/heads/master'' \<and> Ref g \<noteq> ''refs/heads/main'' then []
         else [\<lparr>InstalledRepository.ID = Repository.ID (Repository g),
                FullName = Repository.FullName (Repository g),
                Private = Repository.Private (Repository g),
                Branch = ''''\<rparr>])
      else [])"

text \<open>\<open>func (r InstalledRepository) CloneUrl() string\<close>\<close>

definition InstalledRepository_CloneUrl :: "InstalledRepository \<Rightarrow> string" where
  "InstalledRepository_CloneUrl r = ''https://github.com/'' @ InstalledRepository.FullName r @ ''.git''"

record BuildArtifactRequest =
  Name :: string
  Path :: string
  Dockerfile :: string
  Tag :: string

record Image =
  Registry :: string
  Repository :: string
  Tag :: string

text \<open>
  \<open>tqsdk.Space\<close> is declared outside the two source files; the handler reads
  \<open>Service.Name\<close> and \<open>Service.DockerfilePath\<close> of it and otherwise passes it on whole.
\<close>

record Service =
  Name :: string
  DockerfilePath :: string

record Space =
  Service :: Service

text \<open>\<open>CreatedAt\<close> is a \<open>time.Time\<close>; \<open>0\<close> stands for its zero value.\<close>

record AppDefinition =
  ID :: string
  AppID :: string
  App :: Space
  Tag :: string
  Sha :: string
  User :: string
  CreatedAt :: int

section \<open>The webhook handler\<close>

text \<open>
  The collaborators of \<open>Handler\<close> that \<open>GithubWebhook\<close> calls. Each one is outside the
  source files, so it is a parameter: a function of its arguments and of the state of the
  outside world \<open>'w\<close> (database, file system, network, cluster), returning its result
  and the next state. A Go result \<open>(value, err)\<close> whose value the handler never reads when
  \<open>err \<noteq> nil\<close> is a sum with \<open>Inl\<close> the error; an \<open>error\<close> result alone is an
  option. \<open>filepath.Join\<close> is the library function, pure.
\<close>

record 'w Handler =
  db_LinkGithub :: "int \<Rightarrow> string \<Rightarrow> InstalledRepository list \<Rightarrow> 'w \<Rightarrow> goerror option \<times> 'w"
  githubClient_IssueAccessToken :: "int \<Rightarrow> 'w \<Rightarrow> (goerror + string) \<times> 'w"
  git_Clone :: "string \<Rightarrow> int \<Rightarrow> int \<Rightarrow> string \<Rightarrow> 'w \<Rightarrow> (goerror + string) \<times> 'w"
  os_RemoveAll :: "string \<Rightarrow> 'w \<Rightarrow> 'w"
  extractor_Open :: "'w \<Rightarrow> (goerror + string) \<times> 'w"
  extractor_Close :: "string \<Rightarrow> 'w \<Rightarrow> 'w"
  extractor_ExtractConfig :: "string \<Rightarrow> string \<Rightarrow> 'w \<Rightarrow> (goerror + Space) \<times> 'w"
  filepath_Join :: "string \<Rightarrow> string \<Rightarrow> string"
  docker_Build :: "BuildArtifactRequest \<Rightarrow> 'w \<Rightarrow> (goerror + Image) \<times> 'w"
  db_SaveDeployment :: "AppDefinition \<Rightarrow> 'w \<Rightarrow> (goerror + AppDefinition) \<times> 'w"
  kube_DefineApp :: "string \<Rightarrow> Space \<Rightarrow> Image \<Rightarrow> 'w \<Rightarrow> string \<times> 'w"
  kubeConfig :: string
  kube_Apply :: "string \<Rightarrow> string \<Rightarrow> 'w \<Rightarrow> goerror option \<times> 'w"

text \<open>
  What the handler did, in order: one event for each call of a collaborator, with the
  arguments of the call and what it returned.
\<close>

datatype event =
    EvLinkGithub int string "InstalledRepository list" "goerror option"
  | EvIssueAccessToken int "goerror + string"
  | EvClone string int int string "goerror + string"
  | EvRemoveAll string
  | EvOpen "goerror + string"
  | EvClose string
  | EvExtractConfig string string "goerror + Space"
  | EvBuild BuildArtifactRequest "goerror + Image"
  | EvSaveDeployment AppDefinition "goerror + AppDefinition"
  | EvDefineApp string Space Image string
  | EvApply string string "goerror option"

text \<open>
  A \<open>defer\<close> statement pushes a call, its arguments already evaluated, on the stack of
  the running function; the stack is run, last pushed first, when \<open>GithubWebhook\<close>
  returns. The head of the list is the call pushed last.
\<close>

datatype deferred =
    Defer_RemoveAll string
  | Defer_Close string

fun run_deferred :: "'w Handler \<Rightarrow> deferred list \<Rightarrow> 'w \<Rightarrow> event list \<times> 'w" where
  "run_deferred h [] w = ([], w)"
| "run_deferred h (Defer_RemoveAll dir # ds) w =
     (case run_deferred h ds (os_RemoveAll h dir w) of
        (tr, w') \<Rightarrow> (EvRemoveAll dir # tr, w'))"
| "run_deferred h (Defer_Close x # ds) w =
     (case run_deferred h ds (extractor_Close h x w) of
        (tr, w') \<Rightarrow> (EvClose x # tr, w'))"

text \<open>The \<open>&vel.Error{Code: "UNKNOWN", Message: err.Error()}\<close> of every failing step.\<close>

definition unknown :: "goerror \<Rightarrow> vel_Error" where
  "unknown err = \<lparr>Code = ''UNKNOWN'', Message = Error err\<rparr>"

text \<open>
  The body of the \<open>for _, repo := range req.ReposToProcess()\<close> loop for one repository.
  The result is \<open>Some e\<close> where the body executes \<open>return GithubWebhookResponse{}, e\<close>
  and \<open>None\<close> where it reaches its end; with it come the events of the body, the calls
  it deferred (last first) and the state of the world.
\<close>

definition pipeline ::
  "'w Handler \<Rightarrow> GithubWebhookRequest \<Rightarrow> InstalledRepository \<Rightarrow> 'w
     \<Rightarrow> vel_Error option \<times> event list \<times> deferred list \<times> 'w" where
  "pipeline h req repo w0 =
     (case (if InstalledRepository.Private repo
            then (case githubClient_IssueAccessToken h (Installation.ID (Installation req)) w0 of
                    (r, w1) \<Rightarrow> (r, [EvIssueAccessToken (Installation.ID (Installation req)) r], w1))
            else (Inr '''', [], w0)) of
        (Inl err, tr, w1) \<Rightarrow> (Some (unknown err), tr, [], w1)
      | (Inr token, tr, w1) \<Rightarrow>
     (case git_Clone h (InstalledRepository_CloneUrl repo) (Installation.ID (Installation req))
             (InstalledRepository.ID repo) token w1 of
        (Inl err, w2) \<Rightarrow>
          (Some (unknown err),
           tr @ [EvClone (InstalledRepository_CloneUrl repo) (Installation.ID (Installation req))
                   (InstalledRepository.ID repo) token (Inl err)],
           [], w2)
      | (Inr repoDir, w2) \<Rightarrow>
     (let tr = tr @ [EvClone (InstalledRepository_CloneUrl repo) (Installation.ID (Installation req))
                       (InstalledRepository.ID repo) token (Inr repoDir)]
      in case extractor_Open h w2 of
        (Inl err, w3) \<Rightarrow>
          (Some (unknown err), tr @ [EvOpen (Inl err)], [Defer_RemoveAll repoDir], w3)
      | (Inr extractorID, w3) \<Rightarrow>
     (let tr = tr @ [EvOpen (Inr extractorID)];
          ds = [Defer_Close extractorID, Defer_RemoveAll repoDir]
      in case extractor_ExtractConfig h extractorID repoDir w3 of
        (Inl err, w4) \<Rightarrow>
          (Some (unknown err), tr @ [EvExtractConfig extractorID repoDir (Inl err)], ds, w4)
      | (Inr appSpace, w4) \<Rightarrow>
     (let tr = tr @ [EvExtractConfig extractorID repoDir (Inr appSpace)];
          dockerFilePath = filepath_Join h repoDir (DockerfilePath (Service appSpace));
          breq = \<lparr>BuildArtifactRequest.Name = Service.Name (Service appSpace), Path = repoDir,
                  Dockerfile = dockerFilePath, Tag = ''latest''\<rparr>
      in case docker_Build h breq w4 of
        (Inl err, w5) \<Rightarrow> (Some (unknown err), tr @ [EvBuild breq (Inl err)], ds, w5)
      | (Inr img, w5) \<Rightarrow>
     (let tr = tr @ [EvBuild breq (Inr img)];
          def = \<lparr>AppDefinition.ID = '''', AppID = '''', App = appSpace, Tag = Image.Tag img,
                 Sha = After req, User = Sender.Login (Sender req), CreatedAt = 0\<rparr>
      in case db_SaveDeployment h def w5 of
        (Inl err, w6) \<Rightarrow> (Some (unknown err), tr @ [EvSaveDeployment def (Inl err)], ds, w6)
      | (Inr appDef, w6) \<Rightarrow>
     (let tr = tr @ [EvSaveDeployment def (Inr appDef)]
      in case kube_DefineApp h (AppDefinition.ID appDef) appSpace img w6 of
        (appKubeDef, w7) \<Rightarrow>
     (let tr = tr @ [EvDefineApp (AppDefinition.ID appDef) appSpace img appKubeDef]
      in case kube_Apply h (kubeConfig h) appKubeDef w7 of
        (Some err, w8) \<Rightarrow>
          (Some (unknown err), tr @ [EvApply (kubeConfig h) appKubeDef (Some err)], ds, w8)
      | (None, w8) \<Rightarrow>
          (None, tr @ [EvApply (kubeConfig h) appKubeDef None], ds, w8)))))))))"

text \<open>
  The loop over the repositories: the body of a repository that returns ends the loop and
  the handler; otherwise the loop goes on with the next repository. \<open>ds\<close> is the stack
  of deferred calls so far.
\<close>

fun processRepos ::
  "'w Handler \<Rightarrow> GithubWebhookRequest \<Rightarrow> InstalledRepository list \<Rightarrow> deferred list \<Rightarrow> 'w
     \<Rightarrow> vel_Error option \<times> event list \<times> deferred list \<times> 'w" where
  "processRepos h req [] ds w = (None, [], ds, w)"
| "processRepos h req (repo # repos) ds w =
     (case pipeline h req repo w of
        (Some e, tr, ds', w') \<Rightarrow> (Some e, tr, ds' @ ds, w')
      | (None, tr, ds', w') \<Rightarrow>
          (case processRepos h req repos (ds' @ ds) w' of
             (r, tr', ds'', w'') \<Rightarrow> (r, tr @ tr', ds'', w'')))"

text \<open>
  The \<open>if req.Action == "created"\<close> block at the head of the handler: \<open>Some e\<close> where it
  returns \<open>e\<close>.
\<close>

definition linkInstallation ::
  "'w Handler \<Rightarrow> GithubWebhookRequest \<Rightarrow> 'w \<Rightarrow> vel_Error option \<times> event list \<times> 'w" where
  "linkInstallation h req w =
     (if Action req = ''created'' then
        (case db_LinkGithub h (Installation.ID (Installation req)) (Sender.Login (Sender req))
                (Repositories req) w of
           (r, w') \<Rightarrow>
             (map_option unknown r,
              [EvLinkGithub (Installation.ID (Installation req)) (Sender.Login (Sender req))
                 (Repositories req) r],
              w'))
      else (None, [], w))"

text \<open>
  \<open>func (h *Handler) GithubWebhook(ctx, req) (GithubWebhookResponse, *vel.Error)\<close>.
  \<open>GithubWebhookResponse\<close> is the empty struct, so the result is the error (\<open>None\<close> for
  nil), with the events of the whole call, those of the deferred calls last, and the
  state of the world.
\<close>

definition GithubWebhook ::
  "'w Handler \<Rightarrow> GithubWebhookRequest \<Rightarrow> 'w \<Rightarrow> vel_Error option \<times> event list \<times> 'w" where
  "GithubWebhook h req w =
     (case linkInstallation h req w of
        (Some e, tr0, w0) \<Rightarrow> (Some e, tr0, w0)
      | (None, tr0, w0) \<Rightarrow>
          (case processRepos h req (ReposToProcess req) [] w0 of
             (r, tr, ds, w1) \<Rightarrow>
               (case run_deferred h ds w1 of
                  (tr', w2) \<Rightarrow> (r, tr0 @ tr @ tr', w2))))"

section \<open>Observations on the events of the webhook handler\<close>












section \<open>The OAuth and login handlers\<close>

record UserInfo =
  ID :: string
  Email :: string
  DisplayName :: string

text \<open>
  \<open>time.Time\<close> is a count of nanoseconds, unbounded; \<open>time.Duration\<close> is an
  \<open>int64\<close> of nanoseconds, which wraps.
\<close>

record TokenPair =
  AccessToken :: string
  RefreshToken :: string
  ExpiresIn :: int

record GithubTokenResponse =
  AccessToken :: string
  RefreshToken :: string
  ExpiresIn :: int

text \<open>
  \<open>r.URL.Query()\<close> is a \<open>url.Values\<close>, a map from a key to the list of its values;
  \<open>Get\<close> is the first value of the key, and the empty string when the key is absent or
  has no value.
\<close>

type_synonym url_Values = "string \<rightharpoonup> string list"

definition Get :: "url_Values \<Rightarrow> string \<Rightarrow> string" where
  "Get q key = (case q key of None \<Rightarrow> [] | Some [] \<Rightarrow> [] | Some (v # vs) \<Rightarrow> v)"

text \<open>
  What a handler does to its \<open>http.ResponseWriter\<close>: nothing, \<open>w.WriteHeader(code)\<close>,
  or \<open>http.Error(w, message, code)\<close>.
\<close>

datatype response =
    Unwritten
  | WriteHeader nat
  | http_Error string nat

text \<open>
  The events of the OAuth and login handlers: the calls of \<open>h.authService\<close>, \<open>h.l\<close>,
  \<open>h.db\<close> and of the HTTP client, with arguments and results. A result
  \<open>(user, err)\<close> is kept as a pair, since \<open>HandleLoginSuccess\<close> assigns both parts.
\<close>

datatype auth_event =
    EvGetIdpUser string string "UserInfo \<times> goerror option"
  | EvGetUserByEmail string "UserInfo \<times> goerror option"
  | EvCreateUser UserInfo "UserInfo \<times> goerror option"
  | EvLogin string string string
  | EvErrorContext string string string
  | EvAuthStateExists string "goerror + string"
  | EvHttpDo string string
  | EvBodyClose
  | EvSaveTokenPair string string "goerror option"

record 'w AuthService =
  GetIdpUser :: "string \<Rightarrow> string \<Rightarrow> 'w \<Rightarrow> (UserInfo \<times> goerror option) \<times> 'w"
  GetUserByEmail :: "string \<Rightarrow> 'w \<Rightarrow> (UserInfo \<times> goerror option) \<times> 'w"
  CreateUser :: "UserInfo \<Rightarrow> 'w \<Rightarrow> (UserInfo \<times> goerror option) \<times> 'w"
  Login :: "string \<Rightarrow> string \<Rightarrow> string \<Rightarrow> 'w \<Rightarrow> 'w"

text \<open>\<open>errors.Is(err, ErrUserNotFound)\<close> on a possibly nil \<open>err\<close>.\<close>

fun errors_Is_ErrUserNotFound :: "goerror option \<Rightarrow> bool" where
  "errors_Is_ErrUserNotFound None = False"
| "errors_Is_ErrUserNotFound (Some e) = Is_ErrUserNotFound e"

text \<open>\<open>err.Error()\<close> where \<open>err\<close> is known not to be nil.\<close>

fun Error_of :: "goerror option \<Rightarrow> string" where
  "Error_of None = []"
| "Error_of (Some e) = Error e"

text \<open>
  \<open>func (h *Handler) HandleLoginSuccess(w http.ResponseWriter, r *http.Request)\<close>.
  The variable \<open>user\<close> is assigned three times: by \<open>GetIdpUser\<close>, by \<open>GetUserByEmail\<close>
  and by \<open>CreateUser\<close>; \<open>user0\<close>, \<open>user1\<close> and \<open>user2\<close> are its three values.
\<close>

definition HandleLoginSuccess ::
  "'w AuthService \<Rightarrow> url_Values \<Rightarrow> 'w \<Rightarrow> response \<times> auth_event list \<times> 'w" where
  "HandleLoginSuccess h q w0 =
     (let intent = Get q ''id''; token = Get q ''token'' in
      case GetIdpUser h intent token w0 of
        ((user0, Some err), w1) \<Rightarrow>
          (WriteHeader 400,
           [EvGetIdpUser intent token (user0, Some err),
            EvErrorContext ''failed to get user'' (Error err) intent], w1)
      | ((user0, None), w1) \<Rightarrow>
     (let tr = [EvGetIdpUser intent token (user0, None)] in
      case GetUserByEmail h (Email user0) w1 of
        ((user1, err), w2) \<Rightarrow>
     (let tr = tr @ [EvGetUserByEmail (Email user0) (user1, err)] in
      if err \<noteq> None \<and> \<not> errors_Is_ErrUserNotFound err then
        (WriteHeader 400, tr @ [EvErrorContext ''failed to get user'' (Error_of err) intent], w2)
      else if errors_Is_ErrUserNotFound err then
        (case CreateUser h user1 w2 of
           ((user2, Some err2), w3) \<Rightarrow>
             (WriteHeader 400,
              tr @ [EvCreateUser user1 (user2, Some err2),
                    EvErrorContext ''failed to create user'' (Error err2) intent], w3)
         | ((user2, None), w3) \<Rightarrow>
             (Unwritten,
              tr @ [EvCreateUser user1 (user2, None), EvLogin (UserInfo.ID user2) intent token],
              Login h (UserInfo.ID user2) intent token w3))
      else
        (Unwritten, tr @ [EvLogin (UserInfo.ID user1) intent token],
         Login h (UserInfo.ID user1) intent token w2))))"

subsection \<open>The state store\<close>

text \<open>
  The correlation states held by the persistence layer: the e-mail a state token was
  saved for and the time its validity ends.
\<close>

record AuthState =
  state_email :: string
  state_expires :: int

type_synonym auth_states = "string \<rightharpoonup> AuthState"

text \<open>
  Modelled from the spec: \<open>h.db.AuthStateExists\<close>, the method of the persistence layer that
  \<open>GithubCallbackHandler\<close> calls; its body is not in the source files. The spec gives it
  as \<open>ConsumeAuthState(state) -> (email, error-if-invalid-or-expired)\<close>: a state that is
  absent, expired or already consumed is an error; on success the state is consumed
  (single-use, deleted) and the associated e-mail is returned. \<open>now\<close> is the time of
  the call.
\<close>

definition db_AuthStateExists ::
  "int \<Rightarrow> string \<Rightarrow> auth_states \<Rightarrow> (goerror + string) \<times> auth_states" where
  "db_AuthStateExists now state st =
     (case st state of
        None \<Rightarrow> (Inl (ErrOther ''auth state not found''), st)
      | Some a \<Rightarrow>
          if state_expires a < now then (Inl (ErrOther ''auth state expired''), st)
          else (Inr (state_email a), st(state := None)))"

subsection \<open>The callback\<close>

record http_Response =
  StatusCode :: nat
  Status :: string
  Body :: string

text \<open>
  What \<open>GithubCallbackHandler\<close> and \<open>exchangeCodeForToken\<close> use of the handler and of the
  libraries: the client id and secret, \<open>url.Values.Encode\<close> (given the pairs in the order
  they were set), \<open>http.NewRequest\<close>, \<open>http.DefaultClient.Do\<close>, the JSON decoder,
  \<open>time.Now\<close>, and \<open>h.db.SaveTokenPair\<close>. \<open>'w\<close> is the state of the outside world
  apart from the state store.
\<close>

record 'w OAuthHandler =
  githubClientID :: string
  githubSecret :: string
  url_Values_Encode :: "(string \<times> string) list \<Rightarrow> string"
  http_NewRequest :: "string \<Rightarrow> string \<Rightarrow> goerror option"
  http_Do :: "string \<Rightarrow> string \<Rightarrow> 'w \<Rightarrow> (goerror + http_Response) \<times> 'w"
  json_Decode :: "string \<Rightarrow> goerror + GithubTokenResponse"
  time_Now :: "'w \<Rightarrow> int"
  db_SaveTokenPair :: "string \<Rightarrow> string \<Rightarrow> 'w \<Rightarrow> goerror option \<times> 'w"

text \<open>\<open>time.Duration(n) * time.Second\<close> in \<open>int64\<close>, and \<open>Time.Add\<close>.\<close>

definition seconds :: "int \<Rightarrow> 64 word" where
  "seconds n = word_of_int n * 1000000000"

definition time_Add :: "int \<Rightarrow> 64 word \<Rightarrow> int" where
  "time_Add t d = t + sint d"

text \<open>\<open>func (h *Handler) exchangeCodeForToken(code string) (TokenPair, error)\<close>\<close>

definition exchangeCodeForToken ::
  "'w OAuthHandler \<Rightarrow> string \<Rightarrow> 'w \<Rightarrow> (goerror + TokenPair) \<times> auth_event list \<times> 'w" where
  "exchangeCodeForToken h code w =
     (let urlStr = ''https://github.com/login/oauth/access_token'' @ ''?'' @
            url_Values_Encode h [(''client_id'', githubClientID h),
                                 (''client_secret'', githubSecret h), (''code'', code)]
      in case http_NewRequest h ''POST'' urlStr of
        Some err \<Rightarrow> (Inl err, [], w)
      | None \<Rightarrow>
     (case http_Do h ''POST'' urlStr w of
        (Inl err, w1) \<Rightarrow> (Inl err, [EvHttpDo ''POST'' urlStr], w1)
      | (Inr resp, w1) \<Rightarrow>
          if StatusCode resp \<noteq> 200 then
            (Inl (ErrOther (''failed to exchange code for token: '' @ Status resp)),
             [EvHttpDo ''POST'' urlStr, EvBodyClose], w1)
          else
            (case json_Decode h (Body resp) of
               Inl err \<Rightarrow> (Inl err, [EvHttpDo ''POST'' urlStr, EvBodyClose], w1)
             | Inr result \<Rightarrow>
                 (Inr \<lparr>TokenPair.AccessToken = GithubTokenResponse.AccessToken result,
                       RefreshToken = GithubTokenResponse.RefreshToken result,
                       ExpiresIn = time_Add (time_Add (time_Now h w1)
                                     (seconds (GithubTokenResponse.ExpiresIn result)))
                                     (seconds (- 10))\<rparr>,
                  [EvHttpDo ''POST'' urlStr, EvBodyClose], w1))))"

text \<open>
  \<open>func (h *Handler) GithubCallbackHandler(w http.ResponseWriter, r *http.Request)\<close>, on
  the query of the request; the state is the state store and the outside world.
\<close>

definition GithubCallbackHandler ::
  "'w OAuthHandler \<Rightarrow> url_Values \<Rightarrow> auth_states \<times> 'w
     \<Rightarrow> response \<times> auth_event list \<times> auth_states \<times> 'w" where
  "GithubCallbackHandler h q s =
     (case s of (st, w) \<Rightarrow>
      let code = Get q ''code'' in
      if code = [] then (http_Error ''Code not found'' 400, [], st, w)
      else
     (let state = Get q ''state'' in
      if state = [] then (http_Error ''State not found'' 400, [], st, w)
      else
     (case db_AuthStateExists (time_Now h w) state st of
        (Inl err, st1) \<Rightarrow>
          (http_Error ''State not found'' 400, [EvAuthStateExists state (Inl err)], st1, w)
      | (Inr email, st1) \<Rightarrow>
     (let tr = [EvAuthStateExists state (Inr email)] in
      case exchangeCodeForToken h code w of
        (Inl err, tr1, w1) \<Rightarrow>
          (http_Error ''Failed to exchange code for token'' 500, tr @ tr1, st1, w1)
      | (Inr tokenPair, tr1, w1) \<Rightarrow>
     (case db_SaveTokenPair h email (TokenPair.AccessToken tokenPair) w1 of
        (Some err, w2) \<Rightarrow>
          (http_Error ''Failed to save token pair'' 500,
           tr @ tr1 @ [EvSaveTokenPair email (TokenPair.AccessToken tokenPair) (Some err)], st1, w2)
      | (None, w2) \<Rightarrow>
          (WriteHeader 200,
           tr @ tr1 @ [EvSaveTokenPair email (TokenPair.AccessToken tokenPair) None], st1, w2))))))"

text \<open>Callbacks served one after the other; the response and the events of each.\<close>

fun callbacks ::
  "'w OAuthHandler \<Rightarrow> url_Values list \<Rightarrow> auth_states \<times> 'w
     \<Rightarrow> (response \<times> auth_event list) list \<times> auth_states \<times> 'w" where
  "callbacks h [] s = ([], s)"
| "callbacks h (q # qs) s =
     (case GithubCallbackHandler h q s of
        (resp, tr, s1) \<Rightarrow>
          (case callbacks h qs s1 of (rs, s2) \<Rightarrow> ((resp, tr) # rs, s2)))"

text \<open>The event of a state that validated.\<close>

fun validated :: "string \<Rightarrow> auth_event \<Rightarrow> bool" where
  "validated state (EvAuthStateExists s (Inr e)) = (s = state)"
| "validated state ev = False"





section \<open>Concrete requests and collaborators\<close>

text \<open>
  The requests of the end-to-end scenarios, and collaborators simple enough to run:
  their world is the number of calls made so far.
\<close>

definition repo_public :: InstalledRepository where
  "repo_public = \<lparr>InstalledRepository.ID = 1, FullName = ''o/r'', Private = False, Branch = []\<rparr>"

definition repo_private :: InstalledRepository where
  "repo_private = \<lparr>InstalledRepository.ID = 2, FullName = ''o/r2'', Private = True, Branch = []\<rparr>"

definition repo_broken :: InstalledRepository where
  "repo_broken = \<lparr>InstalledRepository.ID = 13, FullName = ''o/bad'', Private = False, Branch = []\<rparr>"

definition empty_request :: GithubWebhookRequest where
  "empty_request =
     \<lparr>After = [],
      Installation = \<lparr>Installation.ID = 7,
                      Account = \<lparr>InstallationAccount.ID = 70, Type = ''Organization'', Login = ''o''\<rparr>\<rparr>,
      Sender = \<lparr>Sender.Login = ''alice''\<rparr>,
      Action = [], Repositories = [], RepositoriesAdded = [], RepositoriesRemoved = [],
      Ref = [],
      Repository = \<lparr>Repository.ID = 0, CloneUrl = [], FullName = [], Private = False\<rparr>\<rparr>"

definition install_request :: GithubWebhookRequest where
  "install_request = empty_request\<lparr>Action := ''created'', Repositories := [repo_public]\<rparr>"

definition added_request :: "InstalledRepository list \<Rightarrow> GithubWebhookRequest" where
  "added_request repos = empty_request\<lparr>Action := ''added'', RepositoriesAdded := repos\<rparr>"

definition push_request :: "string \<Rightarrow> GithubWebhookRequest" where
  "push_request ref =
     empty_request\<lparr>After := ''abc123'', Ref := ref,
       GithubWebhookRequest.Repository := \<lparr>Repository.ID = 2, CloneUrl = ''https://github.com/o/r2.git'',
                       FullName = ''o/r2'', Private = True\<rparr>\<rparr>"

definition mallory_request :: GithubWebhookRequest where
  "mallory_request = install_request\<lparr>Sender := \<lparr>Sender.Login = ''mallory''\<rparr>\<rparr>"

definition removed_request :: GithubWebhookRequest where
  "removed_request = empty_request\<lparr>Action := ''removed'', RepositoriesRemoved := [repo_public]\<rparr>"

text \<open>
  Linking fails for the sender \<open>mallory\<close>, cloning fails for the repository 13; every
  other call succeeds. A session is named after the call that opened it. A clone of
  \<open>https://github.com/o/r.git\<close> goes to \<open>/tmp/o/r.git\<close>; on such a clean directory and
  a plain file name, \<open>filepath.Join\<close> puts a separator between the two.
\<close>

definition sim :: "nat Handler" where
  "sim =
     \<lparr>db_LinkGithub = (\<lambda>i l rs w.
         (if l = ''mallory'' then Some (ErrOther ''link failed'') else None, Suc w)),
      githubClient_IssueAccessToken = (\<lambda>i w. (Inr ''token'', Suc w)),
      git_Clone = (\<lambda>url i rid tok w.
         (if rid = 13 then Inl (ErrOther ''clone failed'') else Inr (''/tmp/'' @ drop 19 url), Suc w)),
      os_RemoveAll = (\<lambda>dir w. Suc w),
      extractor_Open = (\<lambda>w. (Inr (replicate w (CHR ''x'')), Suc w)),
      extractor_Close = (\<lambda>x w. Suc w),
      extractor_ExtractConfig = (\<lambda>x dir w.
         (Inr \<lparr>Service = \<lparr>Service.Name = ''web'', DockerfilePath = ''Dockerfile''\<rparr>\<rparr>, Suc w)),
      filepath_Join = (\<lambda>a b. a @ ''/'' @ b),
      docker_Build = (\<lambda>b w.
         (Inr \<lparr>Registry = ''registry'', Repository = BuildArtifactRequest.Name b,
               Tag = ''built-'' @ BuildArtifactRequest.Tag b\<rparr>, Suc w)),
      db_SaveDeployment = (\<lambda>d w. (Inr (d\<lparr>AppDefinition.ID := ''dep''\<rparr>), Suc w)),
      kube_DefineApp = (\<lambda>i sp img w. (''app-'' @ i, Suc w)),
      kubeConfig = ''cluster'',
      kube_Apply = (\<lambda>c m w. (None, Suc w))\<rparr>"

text \<open>
  An identity provider that knows Alice, and a user store in which nobody is registered:
  the lookup returns the zero \<open>UserInfo\<close> with \<open>ErrUserNotFound\<close>, and \<open>CreateUser\<close>
  stores what it is given.
\<close>

definition alice :: UserInfo where
  "alice = \<lparr>UserInfo.ID = ''idp-42'', Email = ''alice@example.com'', DisplayName = ''Alice''\<rparr>"

definition no_user :: UserInfo where
  "no_user = \<lparr>UserInfo.ID = [], Email = [], DisplayName = []\<rparr>"

definition auth_sim :: "nat AuthService" where
  "auth_sim =
     \<lparr>GetIdpUser = (\<lambda>intent token w. ((alice, None), Suc w)),
      GetUserByEmail = (\<lambda>e w. ((no_user, Some ErrUserNotFound), Suc w)),
      CreateUser = (\<lambda>u w. ((u, None), Suc w)),
      Login = (\<lambda>i intent token w. Suc w)\<rparr>"

definition login_query :: url_Values where
  "login_query = [''id'' \<mapsto> [''intent-1''], ''token'' \<mapsto> [''secret'']]"

text \<open>
  A provider that answers every exchange with the same token, a store holding the state
  \<open>s1\<close> of Alice, and the queries of a callback. The keys of the exchange are set in
  alphabetical order and the values need no escaping, so \<open>Encode\<close> joins the pairs with
  an ampersand.
\<close>

definition oauth_sim :: "nat OAuthHandler" where
  "oauth_sim =
     \<lparr>githubClientID = ''client'',
      githubSecret = ''secret'',
      url_Values_Encode = (\<lambda>kvs.
         case map (\<lambda>(k, v). k @ ''='' @ v) kvs of
           [] \<Rightarrow> []
         | kv # rest \<Rightarrow> kv @ concat (map (\<lambda>x. ''&'' @ x) rest)),
      http_NewRequest = (\<lambda>m u. None),
      http_Do = (\<lambda>m u w. (Inr \<lparr>StatusCode = 200, Status = ''200 OK'', Body = ''{}''\<rparr>, Suc w)),
      json_Decode = (\<lambda>b. Inr \<lparr>GithubTokenResponse.AccessToken = ''gho_1'',
                              RefreshToken = ''ghr_1'', ExpiresIn = 3600\<rparr>),
      time_Now = (\<lambda>w. int w),
      db_SaveTokenPair = (\<lambda>e t w. (None, Suc w))\<rparr>"

definition one_state :: auth_states where
  "one_state = [''s1'' \<mapsto> \<lparr>state_email = ''alice@example.com'', state_expires = 600\<rparr>]"

definition callback_query :: "string \<Rightarrow> string \<Rightarrow> url_Values" where
  "callback_query code state = [''code'' \<mapsto> [code], ''state'' \<mapsto> [state]]"


section \<open>The repositories of an event\<close>

text \<open>
  C7. For every event with action "created", \<open>ReposToProcess\<close> returns exactly the
  installation's repository list, unmodified in content and order; for every event with
  action "added", it returns exactly the \<open>RepositoriesAdded\<close> list.
\<close>

theorem ReposToProcess_created_added:
  "(Action g = ''created'' \<longrightarrow> ReposToProcess g = Repositories g) \<and>
   (Action g = ''added'' \<longrightarrow> ReposToProcess g = RepositoriesAdded g)"
  by (simp add: ReposToProcess_def)

theorem ReposToProcess_created_added_witness:
  "ReposToProcess install_request = [repo_public] \<and>
   ReposToProcess (added_request [repo_private, repo_public]) = [repo_private, repo_public]"
  using ReposToProcess_created_added [of install_request]
    ReposToProcess_created_added [of "added_request [repo_private, repo_public]"]
  by (simp add: install_request_def added_request_def empty_request_def)

text \<open>
  C8. For every event with empty action: if the ref is neither \<open>refs/heads/master\<close> nor
  \<open>refs/heads/main\<close>, \<open>ReposToProcess\<close> returns the empty list; if the ref is
  \<open>refs/heads/main\<close> or \<open>refs/heads/master\<close>, it returns the one repository made from
  the embedded repository descriptor, with its \<open>ID\<close>, \<open>FullName\<close> and \<open>Private\<close> (and
  an empty \<open>Branch\<close>). For every action other than "created", "added" and the empty
  one, it returns the empty list.
\<close>

theorem ReposToProcess_push_and_other:
  "(Action g = [] \<and> Ref g \<noteq> ''refs/heads/master'' \<and> Ref g \<noteq> ''refs/heads/main''
      \<longrightarrow> ReposToProcess g = []) \<and>
   (Action g = [] \<and> (Ref g = ''refs/heads/main'' \<or> Ref g = ''refs/heads/master'')
      \<longrightarrow> ReposToProcess g =
            [\<lparr>InstalledRepository.ID = Repository.ID (GithubWebhookRequest.Repository g),
              FullName = Repository.FullName (GithubWebhookRequest.Repository g),
              Private = Repository.Private (GithubWebhookRequest.Repository g),
              Branch = []\<rparr>]) \<and>
   (Action g \<noteq> ''created'' \<and> Action g \<noteq> ''added'' \<and> Action g \<noteq> []
      \<longrightarrow> ReposToProcess g = [])"
  by (simp add: ReposToProcess_def)

theorem ReposToProcess_push_and_other_witness:
  "ReposToProcess (push_request ''refs/heads/feature-x'') = [] \<and>
   ReposToProcess (push_request ''refs/heads/main'') = [repo_private] \<and>
   ReposToProcess (push_request ''refs/heads/master'') = [repo_private] \<and>
   ReposToProcess removed_request = []"
  using ReposToProcess_push_and_other [of "push_request ''refs/heads/feature-x''"]
    ReposToProcess_push_and_other [of "push_request ''refs/heads/main''"]
    ReposToProcess_push_and_other [of "push_request ''refs/heads/master''"]
    ReposToProcess_push_and_other [of removed_request]
  by (simp add: push_request_def removed_request_def empty_request_def repo_private_def)

section \<open>The webhook handler: events of one repository and of the loop\<close>

lemmas sim_defs = GithubWebhook_def linkInstallation_def pipeline_def ReposToProcess_def
  InstalledRepository_CloneUrl_def unknown_def sim_def added_request_def install_request_def
  push_request_def empty_request_def mallory_request_def removed_request_def
  repo_public_def repo_private_def repo_broken_def Let_def List.map_filter_def




















section \<open>Failure of a pipeline step\<close>




section \<open>Release of the working directory and of the extractor session\<close>






section \<open>The installation link\<close>

text \<open>
  C5. For a webhook with action "created", the first call of \<open>GithubWebhook\<close> is the
  write of the link (installation id, sender login, repositories), before anything is
  done for a repository. If that write fails, the handler returns an error and the
  write is its only call: no token issuance, clone, extract, build, persist or deploy.
  If it succeeds, the repositories of the installation are processed after it, starting
  from the state in which the write left the persistence layer, and the handler returns
  what that processing returns.
\<close>

theorem link_before_pipeline:
  assumes "Action req = ''created''"
    and "db_LinkGithub h (Installation.ID (Installation req)) (Sender.Login (Sender req))
           (Repositories req) w = (r, w')"
  shows "(\<exists>tr. fst (snd (GithubWebhook h req w)) =
             EvLinkGithub (Installation.ID (Installation req)) (Sender.Login (Sender req))
               (Repositories req) r # tr) \<and>
         (\<forall>err. r = Some err \<longrightarrow>
            GithubWebhook h req w =
              (Some \<lparr>Code = ''UNKNOWN'', Message = Error err\<rparr>,
               [EvLinkGithub (Installation.ID (Installation req)) (Sender.Login (Sender req))
                  (Repositories req) (Some err)], w')) \<and>
         (r = None \<longrightarrow>
            GithubWebhook h req w =
              (case processRepos h req (Repositories req) [] w' of
                 (res, tr, ds, w1) \<Rightarrow>
                   (res,
                    EvLinkGithub (Installation.ID (Installation req)) (Sender.Login (Sender req))
                      (Repositories req) None # tr @ fst (run_deferred h ds w1),
                    snd (run_deferred h ds w1))))"
  using assms
  by (auto simp: GithubWebhook_def linkInstallation_def unknown_def ReposToProcess_def
      split: prod.splits option.splits)

theorem link_before_pipeline_witness:
  "Action mallory_request = ''created'' \<and>
   GithubWebhook sim mallory_request 0 =
     (Some \<lparr>Code = ''UNKNOWN'', Message = ''link failed''\<rparr>,
      [EvLinkGithub 7 ''mallory'' [repo_public] (Some (ErrOther ''link failed''))], 1) \<and>
   Action install_request = ''created'' \<and>
   GithubWebhook sim install_request 0 =
     (None,
      [EvLinkGithub 7 ''alice'' [repo_public] None,
       EvClone ''https://github.com/o/r.git'' 7 1 [] (Inr ''/tmp/o/r.git''),
       EvOpen (Inr ''xx''),
       EvExtractConfig ''xx'' ''/tmp/o/r.git''
         (Inr \<lparr>Service = \<lparr>Service.Name = ''web'', DockerfilePath = ''Dockerfile''\<rparr>\<rparr>),
       EvBuild \<lparr>BuildArtifactRequest.Name = ''web'', Path = ''/tmp/o/r.git'',
                Dockerfile = ''/tmp/o/r.git/Dockerfile'', Tag = ''latest''\<rparr>
         (Inr \<lparr>Registry = ''registry'', Repository = ''web'', Tag = ''built-latest''\<rparr>),
       EvSaveDeployment
         \<lparr>AppDefinition.ID = [], AppID = [],
           App = \<lparr>Service = \<lparr>Service.Name = ''web'', DockerfilePath = ''Dockerfile''\<rparr>\<rparr>,
           Tag = ''built-latest'', Sha = [], User = ''alice'', CreatedAt = 0\<rparr>
         (Inr \<lparr>AppDefinition.ID = ''dep'', AppID = [],
                App = \<lparr>Service = \<lparr>Service.Name = ''web'', DockerfilePath = ''Dockerfile''\<rparr>\<rparr>,
                Tag = ''built-latest'', Sha = [], User = ''alice'', CreatedAt = 0\<rparr>),
       EvDefineApp ''dep''
         \<lparr>Service = \<lparr>Service.Name = ''web'', DockerfilePath = ''Dockerfile''\<rparr>\<rparr>
         \<lparr>Registry = ''registry'', Repository = ''web'', Tag = ''built-latest''\<rparr> ''app-dep'',
       EvApply ''cluster'' ''app-dep'' None,
       EvClose ''xx'', EvRemoveAll ''/tmp/o/r.git''],
      10)"
proof -
  have a2: "Action install_request = ''created''"
    by (simp add: install_request_def empty_request_def)
  have l2: "db_LinkGithub sim (Installation.ID (Installation install_request))
             (Sender.Login (Sender install_request)) (Repositories install_request) 0 =
           (None, 1)"
    by (simp add: sim_def install_request_def empty_request_def)
  from link_before_pipeline [OF a2 l2]
  have "GithubWebhook sim install_request 0 =
          (case processRepos sim install_request (Repositories install_request) [] 1 of
             (res, tr, ds, w1) \<Rightarrow>
               (res,
                EvLinkGithub (Installation.ID (Installation install_request))
                  (Sender.Login (Sender install_request))
                  (Repositories install_request) None # tr @ fst (run_deferred sim ds w1),
                snd (run_deferred sim ds w1)))"
    by simp
  also have "\<dots> =
     (None,
      [EvLinkGithub 7 ''alice'' [repo_public] None,
       EvClone ''https://github.com/o/r.git'' 7 1 [] (Inr ''/tmp/o/r.git''),
       EvOpen (Inr ''xx''),
       EvExtractConfig ''xx'' ''/tmp/o/r.git''
         (Inr \<lparr>Service = \<lparr>Service.Name = ''web'', DockerfilePath = ''Dockerfile''\<rparr>\<rparr>),
       EvBuild \<lparr>BuildArtifactRequest.Name = ''web'', Path = ''/tmp/o/r.git'',
                Dockerfile = ''/tmp/o/r.git/Dockerfile'', Tag = ''latest''\<rparr>
         (Inr \<lparr>Registry = ''registry'', Repository = ''web'', Tag = ''built-latest''\<rparr>),
       EvSaveDeployment
         \<lparr>AppDefinition.ID = [], AppID = [],
           App = \<lparr>Service = \<lparr>Service.Name = ''web'', DockerfilePath = ''Dockerfile''\<rparr>\<rparr>,
           Tag = ''built-latest'', Sha = [], User = ''alice'', CreatedAt = 0\<rparr>
         (Inr \<lparr>AppDefinition.ID = ''dep'', AppID = [],
                App = \<lparr>Service = \<lparr>Service.Name = ''web'', DockerfilePath = ''Dockerfile''\<rparr>\<rparr>,
                Tag = ''built-latest'', Sha = [], User = ''alice'', CreatedAt = 0\<rparr>),
       EvDefineApp ''dep''
         \<lparr>Service = \<lparr>Service.Name = ''web'', DockerfilePath = ''Dockerfile''\<rparr>\<rparr>
         \<lparr>Registry = ''registry'', Repository = ''web'', Tag = ''built-latest''\<rparr> ''app-dep'',
       EvApply ''cluster'' ''app-dep'' None,
       EvClose ''xx'', EvRemoveAll ''/tmp/o/r.git''],
      10)"
    by (simp add: sim_defs)
  finally have s: "GithubWebhook sim install_request 0 =
     (None,
      [EvLinkGithub 7 ''alice'' [repo_public] None,
       EvClone ''https://github.com/o/r.git'' 7 1 [] (Inr ''/tmp/o/r.git''),
       EvOpen (Inr ''xx''),
       EvExtractConfig ''xx'' ''/tmp/o/r.git''
         (Inr \<lparr>Service = \<lparr>Service.Name = ''web'', DockerfilePath = ''Dockerfile''\<rparr>\<rparr>),
       EvBuild \<lparr>BuildArtifactRequest.Name = ''web'', Path = ''/tmp/o/r.git'',
                Dockerfile = ''/tmp/o/r.git/Dockerfile'', Tag = ''latest''\<rparr>
         (Inr \<lparr>Registry = ''registry'', Repository = ''web'', Tag = ''built-latest''\<rparr>),
       EvSaveDeployment
         \<lparr>AppDefinition.ID = [], AppID = [],
           App = \<lparr>Service = \<lparr>Service.Name = ''web'', DockerfilePath = ''Dockerfile''\<rparr>\<rparr>,
           Tag = ''built-latest'', Sha = [], User = ''alice'', CreatedAt = 0\<rparr>
         (Inr \<lparr>AppDefinition.ID = ''dep'', AppID = [],
                App = \<lparr>Service = \<lparr>Service.Name = ''web'', DockerfilePath = ''Dockerfile''\<rparr>\<rparr>,
                Tag = ''built-latest'', Sha = [], User = ''alice'', CreatedAt = 0\<rparr>),
       EvDefineApp ''dep''
         \<lparr>Service = \<lparr>Service.Name = ''web'', DockerfilePath = ''Dockerfile''\<rparr>\<rparr>
         \<lparr>Registry = ''registry'', Repository = ''web'', Tag = ''built-latest''\<rparr> ''app-dep'',
       EvApply ''cluster'' ''app-dep'' None,
       EvClose ''xx'', EvRemoveAll ''/tmp/o/r.git''],
      10)" .
  have a: "Action mallory_request = ''created''"
    by (simp add: mallory_request_def install_request_def empty_request_def)
  have l: "db_LinkGithub sim (Installation.ID (Installation mallory_request))
             (Sender.Login (Sender mallory_request)) (Repositories mallory_request) 0 =
           (Some (ErrOther ''link failed''), 1)"
    by (simp add: sim_def mallory_request_def install_request_def empty_request_def)
  from link_before_pipeline [OF a l] a
  have "GithubWebhook sim mallory_request 0 =
     (Some \<lparr>Code = ''UNKNOWN'', Message = ''link failed''\<rparr>,
      [EvLinkGithub 7 ''mallory'' [repo_public] (Some (ErrOther ''link failed''))], 1)"
    by (simp add: mallory_request_def install_request_def empty_request_def)
  with a a2 s show ?thesis by (simp only: simp_thms)
qed



section \<open>The persisted application definition\<close>





section \<open>The OAuth callback\<close>

lemmas oauth_defs = GithubCallbackHandler_def exchangeCodeForToken_def db_AuthStateExists_def
  Get_def Let_def

lemma exchangeCodeForToken_no_validation:
  "exchangeCodeForToken h code w = (r, tr, w') \<Longrightarrow> filter (validated s) tr = []"
  by (auto simp: exchangeCodeForToken_def Let_def split: option.splits prod.splits sum.splits if_splits)

lemma db_AuthStateExists_consumes:
  "db_AuthStateExists now s st = (Inr e, st') \<Longrightarrow> st' s = None"
  by (auto simp: db_AuthStateExists_def split: option.splits if_splits)

lemma db_AuthStateExists_absent:
  "st s = None \<Longrightarrow> db_AuthStateExists now s' st = (r, st') \<Longrightarrow>
     st' s = None \<and> (s' = s \<longrightarrow> r = Inl (ErrOther ''auth state not found''))"
  by (auto simp: db_AuthStateExists_def split: option.splits if_splits)

lemma callback_validated_consumes:
  assumes "GithubCallbackHandler h q (st, w) = (resp, tr, st', w')"
    and "filter (validated s) tr \<noteq> []"
  shows "st' s = None"
proof -
  obtain r st1 where d: "db_AuthStateExists (time_Now h w) (Get q ''state'') st = (r, st1)"
    by (metis surj_pair)
  show ?thesis
  proof (cases r)
    case (Inl err)
    with assms d show ?thesis
      by (auto simp: GithubCallbackHandler_def Let_def split: if_splits)
  next
    case (Inr e)
    obtain r2 tr2 w2 where x: "exchangeCodeForToken h (Get q ''code'') w = (r2, tr2, w2)"
      by (metis prod_cases3)
    note n = exchangeCodeForToken_no_validation [OF x, of s]
    from assms d Inr x n have "Get q ''state'' = s \<and> st' = st1"
      by (auto simp: GithubCallbackHandler_def Let_def split: if_splits sum.splits prod.splits option.splits)
    moreover from d Inr have "st1 (Get q ''state'') = None"
      by (auto dest: db_AuthStateExists_consumes)
    ultimately show ?thesis by simp
  qed
qed

lemma callback_absent:
  assumes "st s = None"
    and "GithubCallbackHandler h q (st, w) = (resp, tr, st', w')"
  shows "st' s = None \<and> filter (validated s) tr = [] \<and>
         (Get q ''state'' = s \<longrightarrow>
            resp = http_Error (if Get q ''code'' = [] then ''Code not found''
                               else ''State not found'') 400)"
proof -
  obtain r st1 where d: "db_AuthStateExists (time_Now h w) (Get q ''state'') st = (r, st1)"
    by (metis surj_pair)
  note a = db_AuthStateExists_absent [OF assms(1) d]
  obtain r2 tr2 w2 where x: "exchangeCodeForToken h (Get q ''code'') w = (r2, tr2, w2)"
    by (metis prod_cases3)
  note n = exchangeCodeForToken_no_validation [OF x, of s]
  show ?thesis
  proof (cases "Get q ''code'' = [] \<or> Get q ''state'' = []")
    case True
    with assms show ?thesis
      by (auto simp: GithubCallbackHandler_def Let_def split: if_splits)
  next
    case False
    show ?thesis
    proof (cases r)
      case (Inl err)
      with assms(2) d a False show ?thesis
        by (auto simp: GithubCallbackHandler_def Let_def)
    next
      case (Inr e)
      with a have ne: "Get q ''state'' \<noteq> s" by auto
      from assms(2) d Inr False x have "st' = st1 \<and>
          (tr = EvAuthStateExists (Get q ''state'') (Inr e) # tr2 \<or>
           (\<exists>ev. tr = EvAuthStateExists (Get q ''state'') (Inr e) # tr2 @ [EvSaveTokenPair e ev None]) \<or>
           (\<exists>ev err. tr = EvAuthStateExists (Get q ''state'') (Inr e) # tr2 @ [EvSaveTokenPair e ev (Some err)]))"
        by (auto simp: GithubCallbackHandler_def Let_def split: sum.splits prod.splits option.splits)
      with a n ne show ?thesis by auto
    qed
  qed
qed

lemma callbacks_absent:
  "st s = None \<Longrightarrow> callbacks h qs (st, w) = (rs, st', w') \<Longrightarrow>
     st' s = None \<and> list_all (\<lambda>(resp, tr). filter (validated s) tr = []) rs"
proof (induction qs arbitrary: st w rs st' w')
  case Nil
  then show ?case by simp
next
  case (Cons q qs)
  obtain resp tr st1 w1 where c: "GithubCallbackHandler h q (st, w) = (resp, tr, st1, w1)"
    by (metis prod_cases4)
  obtain rs1 st2 w2 where r: "callbacks h qs (st1, w1) = (rs1, st2, w2)"
    by (metis prod_cases3)
  note a = callback_absent [OF Cons.prems(1) c]
  from a have "st1 s = None" by simp
  from Cons.IH [OF this r]
  have "st2 s = None \<and> list_all (\<lambda>(resp, tr). filter (validated s) tr = []) rs1" .
  with Cons.prems(2) c r a show ?case by auto
qed

text \<open>
  C3. A state that a callback validated is consumed: after that callback, and after any
  further callbacks, a callback presenting the same state fails with a bad-request
  response (\<open>State not found\<close>, or \<open>Code not found\<close> when it carries no code), and the
  state does not validate again, neither there nor in a callback in between.
\<close>

theorem state_validates_once:
  assumes "GithubCallbackHandler h q1 (st, w) = (resp1, tr1, st1, w1)"
    and "filter (validated s) tr1 \<noteq> []"
    and "callbacks h qs (st1, w1) = (rs, st2, w2)"
    and "Get q2 ''state'' = s"
    and "GithubCallbackHandler h q2 (st2, w2) = (resp2, tr2, st3, w3)"
  shows "resp2 = http_Error (if Get q2 ''code'' = [] then ''Code not found''
                             else ''State not found'') 400 \<and>
         filter (validated s) tr2 = [] \<and>
         list_all (\<lambda>(resp, tr). filter (validated s) tr = []) rs"
proof -
  from callback_validated_consumes [OF assms(1,2)] have "st1 s = None" .
  from callbacks_absent [OF this assms(3)]
  have c: "st2 s = None" "list_all (\<lambda>(resp, tr). filter (validated s) tr = []) rs"
    by simp_all
  from callback_absent [OF c(1) assms(5)] assms(4) c(2) show ?thesis by simp
qed

theorem state_validates_once_witness:
  "fst (GithubCallbackHandler oauth_sim (callback_query ''code-1'' ''s1'') (one_state, 0)) =
     WriteHeader 200 \<and>
   fst (GithubCallbackHandler oauth_sim (callback_query ''code-3'' ''s1'')
          (snd (callbacks oauth_sim [callback_query ''code-2'' ''s2'']
             (snd (snd (GithubCallbackHandler oauth_sim (callback_query ''code-1'' ''s1'')
                (one_state, 0))))))) =
     http_Error ''State not found'' 400"
proof -
  obtain tr1 st1 w1 where a:
    "GithubCallbackHandler oauth_sim (callback_query ''code-1'' ''s1'') (one_state, 0) =
       (WriteHeader 200, tr1, st1, w1)"
    and v: "filter (validated ''s1'') tr1 \<noteq> []"
    by (simp add: oauth_defs oauth_sim_def callback_query_def one_state_def seconds_def time_Add_def)
  obtain rs st2 w2 where b:
    "callbacks oauth_sim [callback_query ''code-2'' ''s2''] (st1, w1) = (rs, st2, w2)"
    by (metis prod_cases3)
  obtain resp2 tr2 st3 w3 where c:
    "GithubCallbackHandler oauth_sim (callback_query ''code-3'' ''s1'') (st2, w2) =
       (resp2, tr2, st3, w3)"
    by (metis prod_cases4)
  have g: "Get (callback_query ''code-3'' ''s1'') ''state'' = ''s1''"
    "Get (callback_query ''code-3'' ''s1'') ''code'' = ''code-3''"
    by (simp_all add: Get_def callback_query_def)
  from state_validates_once [OF a v b g(1) c] g(2)
  have "resp2 = http_Error ''State not found'' 400" by simp
  with a b c show ?thesis by simp
qed

text \<open>
  C6. A callback whose query has no \<open>code\<close> parameter or no \<open>state\<close> parameter fails
  with a bad-request response before any state lookup or token exchange: the handler
  makes no call at all, and the state store is unchanged, so no state is consumed.
\<close>

theorem callback_missing_parameter:
  assumes "q ''code'' = None \<or> q ''state'' = None"
  shows "GithubCallbackHandler h q (st, w) =
           (http_Error (if Get q ''code'' = [] then ''Code not found'' else ''State not found'') 400,
            [], st, w)"
  using assms by (auto simp: GithubCallbackHandler_def Get_def Let_def)

theorem callback_missing_parameter_witness:
  "GithubCallbackHandler oauth_sim [''state'' \<mapsto> [''s1'']] (one_state, 0) =
     (http_Error ''Code not found'' 400, [], one_state, 0) \<and>
   GithubCallbackHandler oauth_sim [''code'' \<mapsto> [''code-1'']] (one_state, 0) =
     (http_Error ''State not found'' 400, [], one_state, 0)"
proof -
  have a: "[''state'' \<mapsto> [''s1'']] ''code'' = None \<or> [''state'' \<mapsto> [''s1'']] ''state'' = None"
    by simp
  have b: "[''code'' \<mapsto> [''code-1'']] ''code'' = None \<or>
           [''code'' \<mapsto> [''code-1'']] ''state'' = None"
    by simp
  have g: "Get [''state'' \<mapsto> [''s1'']] ''code'' = []"
    "Get [''code'' \<mapsto> [''code-1'']] ''code'' \<noteq> []"
    by (simp_all add: Get_def)
  from callback_missing_parameter [OF a, of oauth_sim one_state 0]
    callback_missing_parameter [OF b, of oauth_sim one_state 0]
  show ?thesis by (simp only: g if_True if_False simp_thms)
qed

section \<open>Login success\<close>

text \<open>
  C2 says that, when the lookup by e-mail reports user-not-found, the local user is
  created from the identity that the provider resolved. The handler assigns the result
  of the lookup to the same variable \<open>user\<close>, so what \<open>CreateUser\<close> receives is the
  \<open>UserInfo\<close> that the failed lookup returned. Here the provider resolves Alice, the lookup
  returns the zero \<open>UserInfo\<close> with \<open>ErrUserNotFound\<close>, and the user created, and logged
  in, is the zero \<open>UserInfo\<close>: the id, e-mail and display name of Alice are lost.
\<close>

theorem created_user_is_lookup_result:
  "HandleLoginSuccess auth_sim login_query 0 =
     (Unwritten,
      [EvGetIdpUser ''intent-1'' ''secret''
         (\<lparr>UserInfo.ID = ''idp-42'', Email = ''alice@example.com'', DisplayName = ''Alice''\<rparr>, None),
       EvGetUserByEmail ''alice@example.com''
         (\<lparr>UserInfo.ID = [], Email = [], DisplayName = []\<rparr>, Some ErrUserNotFound),
       EvCreateUser \<lparr>UserInfo.ID = [], Email = [], DisplayName = []\<rparr>
         (\<lparr>UserInfo.ID = [], Email = [], DisplayName = []\<rparr>, None),
       EvLogin [] ''intent-1'' ''secret''],
      4)"
  by (simp add: HandleLoginSuccess_def auth_sim_def login_query_def alice_def no_user_def
      Get_def Let_def)


end
